theory Spec2Isabelle
  imports Complex_Main
begin

section \<open>JavaScript values and built-ins\<close>

text \<open>
  The stream manager (\<^verbatim>\<open>lib/websocket\<close>, class \<^verbatim>\<open>BinanceWebSocket\<close>) is written in
  TypeScript and runs in a browser. Its inputs are JavaScript values, so the embedding
  starts with the few value-level notions the code relies on.

  A JavaScript number is an IEEE double. A finite double is read here as the real it
  denotes and arithmetic is exact; \<open>NaN\<close> is kept apart and the infinities are left out.
  The only arithmetic of the code is \<^verbatim>\<open>Math.floor(t / 1000)\<close>; for an integer \<open>t\<close> below
  \<open>2^53\<close> in absolute value the double quotient has the same floor as the exact one.
\<close>

datatype number = NaN | Num real

text \<open>
  What \<^verbatim>\<open>JSON.parse\<close> can return, together with \<^verbatim>\<open>undefined\<close>, which reading a missing
  property yields. An object is the list of its own properties; the first binding of a
  name is the one a lookup finds.
\<close>

datatype jsval =
    JUndefined
  | JNull
  | JBool bool
  | JNum real
  | JStr string
  | JArr "jsval list"
  | JObj "(string \<times> jsval) list"

datatype js_error = SyntaxError | TypeError

text \<open>
  The built-ins of the language that the code calls and that are not code of this
  repository are parameters of the model:
  \<^item> \<open>JSON_parse\<close> is \<^verbatim>\<open>JSON.parse\<close>; \<open>None\<close> stands for the \<^verbatim>\<open>SyntaxError\<close> it throws;
  \<^item> \<open>ToString\<close> is the string conversion of a template literal, asked only for values
    that are not strings already;
  \<^item> \<open>ToNumber\<close> is the numeric conversion of an operand of \<^verbatim>\<open>/\<close>, asked only for values
    that are not numbers already;
  \<^item> \<open>parseFloat\<close> is \<^verbatim>\<open>Number.parseFloat\<close> on a string.
\<close>

record js_builtins =
  JSON_parse :: "string \<Rightarrow> jsval option"
  ToString :: "jsval \<Rightarrow> string"
  ToNumber :: "jsval \<Rightarrow> number"
  parseFloat :: "string \<Rightarrow> number"

definition toString :: "js_builtins \<Rightarrow> jsval \<Rightarrow> string" where
  "toString B v = (case v of JStr s \<Rightarrow> s | _ \<Rightarrow> ToString B v)"

definition toNumber :: "js_builtins \<Rightarrow> jsval \<Rightarrow> number" where
  "toNumber B v = (case v of JNum x \<Rightarrow> Num x | _ \<Rightarrow> ToNumber B v)"

text \<open>\<^verbatim>\<open>x / 1000\<close> and \<^verbatim>\<open>Math.floor\<close>; both keep \<open>NaN\<close>.\<close>

definition div1000 :: "number \<Rightarrow> number" where
  "div1000 x = (case x of NaN \<Rightarrow> NaN | Num r \<Rightarrow> Num (r / 1000))"

definition Math_floor :: "number \<Rightarrow> number" where
  "Math_floor x = (case x of NaN \<Rightarrow> NaN | Num r \<Rightarrow> Num (of_int \<lfloor>r\<rfloor>))"

text \<open>
  Truthiness, as \<^verbatim>\<open>||\<close> tests it: \<^verbatim>\<open>undefined\<close>, \<^verbatim>\<open>null\<close>, \<^verbatim>\<open>false\<close>, zero and the empty
  string are falsy, every array and object is truthy.
\<close>

fun truthy :: "jsval \<Rightarrow> bool" where
  "truthy JUndefined = False"
| "truthy JNull = False"
| "truthy (JBool b) = b"
| "truthy (JNum x) = (x \<noteq> 0)"
| "truthy (JStr s) = (s \<noteq> [])"
| "truthy (JArr xs) = True"
| "truthy (JObj kvs) = True"

text \<open>
  Property access \<^verbatim>\<open>v.name\<close>, for the names the code reads (\<^verbatim>\<open>data\<close>, \<^verbatim>\<open>e\<close>, \<^verbatim>\<open>s\<close>, \<^verbatim>\<open>k\<close>,
  \<^verbatim>\<open>i\<close>, \<^verbatim>\<open>t\<close>, \<^verbatim>\<open>o\<close>, \<^verbatim>\<open>h\<close>, \<^verbatim>\<open>l\<close>, \<^verbatim>\<open>c\<close>, \<^verbatim>\<open>v\<close>: none of them is inherited from a
  prototype). On \<^verbatim>\<open>undefined\<close> and \<^verbatim>\<open>null\<close> it throws a \<^verbatim>\<open>TypeError\<close>; on an object it
  finds the property or yields \<^verbatim>\<open>undefined\<close>; on every other value it yields \<^verbatim>\<open>undefined\<close>.
\<close>

fun get_prop :: "jsval \<Rightarrow> string \<Rightarrow> js_error + jsval" where
  "get_prop JUndefined name = Inl TypeError"
| "get_prop JNull name = Inl TypeError"
| "get_prop (JObj kvs) name = Inr (case map_of kvs name of None \<Rightarrow> JUndefined | Some x \<Rightarrow> x)"
| "get_prop v name = Inr JUndefined"

text \<open>
  Strings are byte strings here, and \<^verbatim>\<open>String.prototype.toLowerCase\<close> is its restriction
  to ASCII: the letters \<open>A\<close> to \<open>Z\<close> (codes 65 to 90) get bit 5 set, which adds 32 to the
  code; every other character is kept. Exchange symbols are ASCII.
\<close>

definition isUpperAscii :: "char \<Rightarrow> bool" where
  "isUpperAscii c = (65 \<le> (of_char c :: nat) \<and> (of_char c :: nat) \<le> 90)"

fun toLowerChar :: "char \<Rightarrow> char" where
  "toLowerChar (Char b0 b1 b2 b3 b4 b5 b6 b7) =
     (if isUpperAscii (Char b0 b1 b2 b3 b4 b5 b6 b7) then Char b0 b1 b2 b3 b4 True b6 b7
      else Char b0 b1 b2 b3 b4 b5 b6 b7)"

definition toLowerCase :: "string \<Rightarrow> string" where
  "toLowerCase s = map toLowerChar s"

text \<open>\<^verbatim>\<open>Array.prototype.join\<close> on an array of strings.\<close>

fun join :: "string \<Rightarrow> string list \<Rightarrow> string" where
  "join sep [] = []"
| "join sep [x] = x"
| "join sep (x # y # ys) = x @ sep @ join sep (y # ys)"

section \<open>Stream names and URLs\<close>

definition WS_BASE_URL :: string where
  "WS_BASE_URL = ''wss://testnet.binance.vision/ws''"

text \<open>
  \<^verbatim>\<open>createStreamUrl\<close>: one stream gives the direct path, any other number of streams
  (zero included) gives the combined path.
\<close>

definition createStreamUrl :: "string list \<Rightarrow> string" where
  "createStreamUrl strs =
     (if length strs = 1 then WS_BASE_URL @ ''/'' @ strs ! 0
      else WS_BASE_URL @ ''/stream?streams='' @ join ''/'' strs)"

text \<open>
  \<^verbatim>\<open>ChartInterval\<close> is a union of string literals (\<^verbatim>\<open>"1m"\<close>, \<^verbatim>\<open>"1h"\<close>, \<^verbatim>\<open>"1M"\<close>, ...); the
  code interpolates it as it is, and \<^verbatim>\<open>handleMessage\<close> casts whatever the frame holds to
  it, so it is a string here.
\<close>

type_synonym ChartInterval = string

definition getKlineStreamName :: "string \<Rightarrow> ChartInterval \<Rightarrow> string" where
  "getKlineStreamName symbol interval = toLowerCase symbol @ ''@kline_'' @ interval"

definition getTradeStreamName :: "string \<Rightarrow> string" where
  "getTradeStreamName symbol = toLowerCase symbol @ ''@trade''"

section \<open>Kline frames and candlesticks\<close>

text \<open>
  \<^verbatim>\<open>BinanceKlineWS\<close> with the fields the code reads (\<^verbatim>\<open>e\<close>, \<^verbatim>\<open>s\<close>, and of \<^verbatim>\<open>k\<close>: \<^verbatim>\<open>t\<close>, \<^verbatim>\<open>i\<close>,
  \<^verbatim>\<open>o\<close>, \<^verbatim>\<open>c\<close>, \<^verbatim>\<open>h\<close>, \<^verbatim>\<open>l\<close>, \<^verbatim>\<open>v\<close>), and \<^verbatim>\<open>CandlestickData\<close>. The field names carry a
  prefix, since one-letter names and \<open>open\<close> are taken.
\<close>

record BinanceKlineWS_k =
  k_t :: number
  k_i :: string
  k_o :: string
  k_c :: string
  k_h :: string
  k_l :: string
  k_v :: string

record BinanceKlineWS =
  kline_e :: string
  kline_s :: string
  kline_k :: BinanceKlineWS_k

record CandlestickData =
  cd_time :: number
  cd_open :: number
  cd_high :: number
  cd_low :: number
  cd_close :: number
  cd_volume :: number

definition parseKlineData :: "js_builtins \<Rightarrow> BinanceKlineWS \<Rightarrow> CandlestickData" where
  "parseKlineData B data =
     \<lparr> cd_time = Math_floor (div1000 (k_t (kline_k data))),
       cd_open = parseFloat B (k_o (kline_k data)),
       cd_high = parseFloat B (k_h (kline_k data)),
       cd_low = parseFloat B (k_l (kline_k data)),
       cd_close = parseFloat B (k_c (kline_k data)),
       cd_volume = parseFloat B (k_v (kline_k data)) \<rparr>"

section \<open>The manager and the browser around it\<close>

datatype ConnectionState = Connecting | Connected | Disconnected | Error

text \<open>\<^verbatim>\<open>WebSocket.readyState\<close>.\<close>

datatype ReadyState = CONNECTING | OPEN | CLOSING | CLOSED

text \<open>
  Handlers are closures of the caller. The model names each by a number and records every
  call of one, with its argument, in a trace; a handler is taken to return normally and
  not to call back into the manager. The trace also holds the other effects the manager
  has on the outside: console errors and frames sent on a socket.
\<close>

datatype effect =
    KlineHandlerCall nat CandlestickData
  | TradeHandlerCall nat jsval
  | ConnectionHandlerCall nat ConnectionState
  | ConsoleError string
  | SocketSend nat string

text \<open>
  The fields of \<^verbatim>\<open>BinanceWebSocket\<close>, followed by the part of the browser the class acts on:
  \<^item> \<open>sockets\<close>: every socket created so far, with its URL and ready state; a socket is
    named by its position, and \<open>ws\<close> holds such a name or \<open>None\<close> for \<^verbatim>\<open>null\<close>;
  \<^item> \<open>timeouts\<close>: the pending \<^verbatim>\<open>setTimeout\<close> timers, each with its handle and delay in
    milliseconds (the only callback ever scheduled is the reconnection of
    \<^verbatim>\<open>attemptReconnect\<close>, and the code drops the handle);
  \<^item> \<open>intervals\<close>: the handles of the running \<^verbatim>\<open>setInterval\<close> timers (the only callback is
    the ping of \<^verbatim>\<open>startPing\<close>); \<open>pingInterval\<close> holds one or \<open>None\<close> for \<^verbatim>\<open>null\<close>;
  \<^item> \<open>nextTimerId\<close>: the next timer handle; handles are positive, hence truthy;
  \<^item> \<open>trace\<close>: the effects so far, oldest first.
  \<^verbatim>\<open>klineHandlers\<close> and \<^verbatim>\<open>tradeHandlers\<close> are \<^verbatim>\<open>Map\<close>s that the code never iterates;
  \<^verbatim>\<open>connectionHandlers\<close> is a \<^verbatim>\<open>Set\<close>, iterated in insertion order.
\<close>

record BinanceWebSocket =
  ws :: "nat option"
  reconnectAttempts :: nat
  pingInterval :: "nat option"
  streams :: "string list"
  klineHandlers :: "string \<rightharpoonup> nat"
  tradeHandlers :: "string \<rightharpoonup> nat"
  connectionHandlers :: "nat list"
  sockets :: "(string \<times> ReadyState) list"
  timeouts :: "(nat \<times> nat) list"
  intervals :: "nat list"
  nextTimerId :: nat
  trace :: "effect list"

text \<open>The two private fields that are never assigned after their initialiser.\<close>

definition maxReconnectAttempts :: nat where
  "maxReconnectAttempts = 5"

definition reconnectDelay :: nat where
  "reconnectDelay = 1000"

text \<open>A freshly constructed manager in a browser with no socket and no timer.\<close>

definition newBinanceWebSocket :: BinanceWebSocket where
  "newBinanceWebSocket =
     \<lparr> ws = None, reconnectAttempts = 0, pingInterval = None, streams = [],
       klineHandlers = Map.empty, tradeHandlers = Map.empty, connectionHandlers = [],
       sockets = [], timeouts = [], intervals = [], nextTimerId = 1, trace = [] \<rparr>"

subsection \<open>Browser primitives\<close>

definition readyState :: "BinanceWebSocket \<Rightarrow> nat \<Rightarrow> ReadyState option" where
  "readyState s n = (if n < length (sockets s) then Some (snd (sockets s ! n)) else None)"

definition setReadyState :: "nat \<Rightarrow> ReadyState \<Rightarrow> BinanceWebSocket \<Rightarrow> BinanceWebSocket" where
  "setReadyState n r s =
     (if n < length (sockets s)
      then s\<lparr>sockets := (sockets s)[n := (fst (sockets s ! n), r)]\<rparr> else s)"

text \<open>
  \<^verbatim>\<open>socket.close()\<close>: a socket that is connecting or open starts closing; the close event
  comes later. On a socket that is closing or closed the call does nothing.
\<close>

definition socket_close :: "nat \<Rightarrow> BinanceWebSocket \<Rightarrow> BinanceWebSocket" where
  "socket_close n s =
     (if readyState s n = Some CONNECTING \<or> readyState s n = Some OPEN
      then setReadyState n CLOSING s else s)"

text \<open>\<^verbatim>\<open>new WebSocket(url)\<close>: the new socket is connecting; its name is returned.\<close>

definition new_WebSocket :: "string \<Rightarrow> BinanceWebSocket \<Rightarrow> nat \<times> BinanceWebSocket" where
  "new_WebSocket url s = (length (sockets s), s\<lparr>sockets := sockets s @ [(url, CONNECTING)]\<rparr>)"

definition emit :: "effect \<Rightarrow> BinanceWebSocket \<Rightarrow> BinanceWebSocket" where
  "emit e s = s\<lparr>trace := trace s @ [e]\<rparr>"

subsection \<open>Private methods\<close>

definition notifyConnectionState :: "ConnectionState \<Rightarrow> BinanceWebSocket \<Rightarrow> BinanceWebSocket" where
  "notifyConnectionState st s =
     s\<lparr>trace := trace s @ map (\<lambda>handler. ConnectionHandlerCall handler st) (connectionHandlers s)\<rparr>"

definition startPing :: "BinanceWebSocket \<Rightarrow> BinanceWebSocket" where
  "startPing s =
     s\<lparr>intervals := intervals s @ [nextTimerId s],
       pingInterval := Some (nextTimerId s),
       nextTimerId := nextTimerId s + 1\<rparr>"

definition stopPing :: "BinanceWebSocket \<Rightarrow> BinanceWebSocket" where
  "stopPing s =
     (case pingInterval s of
        None \<Rightarrow> s
      | Some h \<Rightarrow> s\<lparr>intervals := removeAll h (intervals s), pingInterval := None\<rparr>)"

text \<open>The callback of the ping interval.\<close>

definition pingCallback :: "BinanceWebSocket \<Rightarrow> BinanceWebSocket" where
  \<open>pingCallback s =
     (case ws s of
        None \<Rightarrow> s
      | Some n \<Rightarrow>
          if readyState s n = Some OPEN then emit (SocketSend n ''{"method":"ping"}'') s
          else s)\<close>

text \<open>
  \<^verbatim>\<open>createConnection\<close>. The four event handlers it installs on the new socket are closures
  over the manager alone, the same for every socket; they are \<open>onopen\<close>, \<open>onmessage\<close>,
  \<open>onerror\<close> and \<open>onclose\<close> below.
\<close>

definition createConnection :: "BinanceWebSocket \<Rightarrow> BinanceWebSocket" where
  "createConnection s =
     (let s1 = (case ws s of
                  None \<Rightarrow> s
                | Some n \<Rightarrow> if readyState s n = Some OPEN then socket_close n s else s);
          url = createStreamUrl (streams s1);
          s2 = notifyConnectionState Connecting s1;
          (n, s3) = new_WebSocket url s2
      in s3\<lparr>ws := Some n\<rparr>)"

text \<open>The callback \<^verbatim>\<open>attemptReconnect\<close> hands to \<^verbatim>\<open>setTimeout\<close>.\<close>

definition reconnectCallback :: "BinanceWebSocket \<Rightarrow> BinanceWebSocket" where
  "reconnectCallback s = (if length (streams s) > 0 then createConnection s else s)"

definition attemptReconnect :: "BinanceWebSocket \<Rightarrow> BinanceWebSocket" where
  "attemptReconnect s =
     (if reconnectAttempts s \<ge> maxReconnectAttempts
      then emit (ConsoleError ''Max reconnection attempts reached'') s
      else
        let s1 = s\<lparr>reconnectAttempts := reconnectAttempts s + 1\<rparr>;
            delay = reconnectDelay * 2 ^ (reconnectAttempts s1 - 1)
        in s1\<lparr>timeouts := timeouts s1 @ [(nextTimerId s1, delay)],
               nextTimerId := nextTimerId s1 + 1\<rparr>)"

subsection \<open>Message handling\<close>

text \<open>Sequencing of steps that may throw: the first error ends the computation.\<close>

definition bind_err :: "js_error + 'a \<Rightarrow> ('a \<Rightarrow> js_error + 'b) \<Rightarrow> js_error + 'b" where
  "bind_err r f = (case r of Inl err \<Rightarrow> Inl err | Inr x \<Rightarrow> f x)"

text \<open>\<^verbatim>\<open>parsed.data || parsed\<close>.\<close>

definition payload :: "jsval \<Rightarrow> js_error + jsval" where
  "payload parsed =
     bind_err (get_prop parsed ''data'') (\<lambda>d. Inr (if truthy d then d else parsed))"

text \<open>
  \<^verbatim>\<open>getKlineStreamName(klineData.s, klineData.k.i as ChartInterval)\<close> on a frame: the two
  arguments are read first; then \<^verbatim>\<open>symbol.toLowerCase()\<close> throws a \<^verbatim>\<open>TypeError\<close> unless the
  symbol is a string (no value that \<^verbatim>\<open>JSON.parse\<close> returns is a function), and the
  template converts the interval to a string.
\<close>

definition klineStreamKeyOf :: "js_builtins \<Rightarrow> jsval \<Rightarrow> js_error + string" where
  "klineStreamKeyOf B data =
     bind_err (get_prop data ''s'') (\<lambda>symbol.
     bind_err (get_prop data ''k'') (\<lambda>k.
     bind_err (get_prop k ''i'') (\<lambda>interval.
       case symbol of
         JStr str \<Rightarrow> Inr (getKlineStreamName str (toString B interval))
       | _ \<Rightarrow> Inl TypeError)))"

text \<open>\<^verbatim>\<open>getTradeStreamName(tradeData.s)\<close> on a frame.\<close>

definition tradeStreamKeyOf :: "jsval \<Rightarrow> js_error + string" where
  "tradeStreamKeyOf data =
     bind_err (get_prop data ''s'') (\<lambda>symbol.
       case symbol of
         JStr str \<Rightarrow> Inr (getTradeStreamName str)
       | _ \<Rightarrow> Inl TypeError)"

text \<open>
  The cast \<^verbatim>\<open>data as BinanceKlineWS\<close> checks nothing. \<^verbatim>\<open>parseKlineData\<close> then reads the
  fields of \<^verbatim>\<open>data.k\<close>, and each use converts what it finds: the division converts \<^verbatim>\<open>t\<close> to
  a number, \<^verbatim>\<open>Number.parseFloat\<close> converts its argument to a string. The typed view of a
  frame holds each field after the conversion of its use; on a frame of the declared
  type every conversion is the identity.
\<close>

definition asBinanceKlineWS :: "js_builtins \<Rightarrow> jsval \<Rightarrow> js_error + BinanceKlineWS" where
  "asBinanceKlineWS B data =
     bind_err (get_prop data ''e'') (\<lambda>ev.
     bind_err (get_prop data ''s'') (\<lambda>symbol.
     bind_err (get_prop data ''k'') (\<lambda>k.
     bind_err (get_prop k ''t'') (\<lambda>kt.
     bind_err (get_prop k ''i'') (\<lambda>ki.
     bind_err (get_prop k ''o'') (\<lambda>ko.
     bind_err (get_prop k ''c'') (\<lambda>kc.
     bind_err (get_prop k ''h'') (\<lambda>kh.
     bind_err (get_prop k ''l'') (\<lambda>kl.
     bind_err (get_prop k ''v'') (\<lambda>kv.
       Inr \<lparr> kline_e = toString B ev, kline_s = toString B symbol,
             kline_k = \<lparr> k_t = toNumber B kt, k_i = toString B ki, k_o = toString B ko,
                         k_c = toString B kc, k_h = toString B kh, k_l = toString B kl,
                         k_v = toString B kv \<rparr> \<rparr>))))))))))"

text \<open>
  The body of the \<^verbatim>\<open>try\<close> block of \<^verbatim>\<open>handleMessage\<close>. Its only effect is the call of a
  handler, the last thing it does, so a throw leaves the state as it was.
\<close>

definition handleMessage_try :: "js_builtins \<Rightarrow> string \<Rightarrow> BinanceWebSocket \<Rightarrow> js_error + BinanceWebSocket" where
  "handleMessage_try B rawData s =
     (case JSON_parse B rawData of
        None \<Rightarrow> Inl SyntaxError
      | Some parsed \<Rightarrow>
          bind_err (payload parsed) (\<lambda>data.
          bind_err (get_prop data ''e'') (\<lambda>ev.
            if ev = JStr ''kline'' then
              bind_err (klineStreamKeyOf B data) (\<lambda>streamKey.
                case klineHandlers s streamKey of
                  None \<Rightarrow> Inr s
                | Some handler \<Rightarrow>
                    bind_err (asBinanceKlineWS B data) (\<lambda>klineData.
                      Inr (emit (KlineHandlerCall handler (parseKlineData B klineData)) s)))
            else if ev = JStr ''trade'' then
              bind_err (tradeStreamKeyOf data) (\<lambda>streamKey.
                case tradeHandlers s streamKey of
                  None \<Rightarrow> Inr s
                | Some handler \<Rightarrow> Inr (emit (TradeHandlerCall handler data) s))
            else Inr s)))"

text \<open>\<^verbatim>\<open>handleMessage\<close>: the \<^verbatim>\<open>catch\<close> logs whatever was thrown and returns.\<close>

definition handleMessage :: "js_builtins \<Rightarrow> string \<Rightarrow> BinanceWebSocket \<Rightarrow> BinanceWebSocket" where
  "handleMessage B rawData s =
     (case handleMessage_try B rawData s of
        Inl err \<Rightarrow> emit (ConsoleError ''WebSocket message parse error:'') s
      | Inr s' \<Rightarrow> s')"

subsection \<open>The event handlers of a socket\<close>

definition onopen :: "BinanceWebSocket \<Rightarrow> BinanceWebSocket" where
  "onopen s = startPing (notifyConnectionState Connected (s\<lparr>reconnectAttempts := 0\<rparr>))"

definition onmessage :: "js_builtins \<Rightarrow> string \<Rightarrow> BinanceWebSocket \<Rightarrow> BinanceWebSocket" where
  "onmessage B rawData s = handleMessage B rawData s"

definition onerror :: "BinanceWebSocket \<Rightarrow> BinanceWebSocket" where
  "onerror s = notifyConnectionState Error s"

definition onclose :: "BinanceWebSocket \<Rightarrow> BinanceWebSocket" where
  "onclose s = attemptReconnect (stopPing (notifyConnectionState Disconnected s))"

subsection \<open>Public methods\<close>

definition connect :: "string list \<Rightarrow> BinanceWebSocket \<Rightarrow> BinanceWebSocket" where
  "connect strs s = createConnection (s\<lparr>streams := strs\<rparr>)"

definition subscribeKline :: "string \<Rightarrow> ChartInterval \<Rightarrow> nat \<Rightarrow> BinanceWebSocket \<Rightarrow> BinanceWebSocket" where
  "subscribeKline symbol interval handler s =
     s\<lparr>klineHandlers := (klineHandlers s)(getKlineStreamName symbol interval \<mapsto> handler)\<rparr>"

definition unsubscribeKline :: "string \<Rightarrow> ChartInterval \<Rightarrow> BinanceWebSocket \<Rightarrow> BinanceWebSocket" where
  "unsubscribeKline symbol interval s =
     s\<lparr>klineHandlers := (klineHandlers s)(getKlineStreamName symbol interval := None)\<rparr>"

definition subscribeTrade :: "string \<Rightarrow> nat \<Rightarrow> BinanceWebSocket \<Rightarrow> BinanceWebSocket" where
  "subscribeTrade symbol handler s =
     s\<lparr>tradeHandlers := (tradeHandlers s)(getTradeStreamName symbol \<mapsto> handler)\<rparr>"

definition unsubscribeTrade :: "string \<Rightarrow> BinanceWebSocket \<Rightarrow> BinanceWebSocket" where
  "unsubscribeTrade symbol s =
     s\<lparr>tradeHandlers := (tradeHandlers s)(getTradeStreamName symbol := None)\<rparr>"

text \<open>
  \<^verbatim>\<open>onConnectionChange\<close> adds the handler to the set and returns a closure that deletes it;
  \<open>removeConnectionHandler\<close> is a call of that closure.
\<close>

definition onConnectionChange :: "nat \<Rightarrow> BinanceWebSocket \<Rightarrow> BinanceWebSocket" where
  "onConnectionChange handler s =
     (if handler \<in> set (connectionHandlers s) then s
      else s\<lparr>connectionHandlers := connectionHandlers s @ [handler]\<rparr>)"

definition removeConnectionHandler :: "nat \<Rightarrow> BinanceWebSocket \<Rightarrow> BinanceWebSocket" where
  "removeConnectionHandler handler s =
     s\<lparr>connectionHandlers := removeAll handler (connectionHandlers s)\<rparr>"

definition getState :: "BinanceWebSocket \<Rightarrow> ConnectionState" where
  "getState s =
     (case ws s of
        None \<Rightarrow> Disconnected
      | Some n \<Rightarrow>
          (case readyState s n of
             Some CONNECTING \<Rightarrow> Connecting
           | Some OPEN \<Rightarrow> Connected
           | _ \<Rightarrow> Disconnected))"

definition disconnect :: "BinanceWebSocket \<Rightarrow> BinanceWebSocket" where
  "disconnect s =
     (let s1 = stopPing s;
          s2 = s1\<lparr>klineHandlers := Map.empty, tradeHandlers := Map.empty,
                  connectionHandlers := [], streams := []\<rparr>
      in case ws s2 of
           None \<Rightarrow> s2
         | Some n \<Rightarrow> (socket_close n s2)\<lparr>ws := None\<rparr>)"

subsection \<open>What the browser does\<close>

text \<open>
  The browser delivers the events of a socket and fires the timers. A socket opens once,
  from connecting; it receives messages while open; it closes once, and the close event
  finds it closed; an error event changes no ready state. A timeout fires once and is
  gone; an interval fires as long as it has not been cleared.
\<close>

definition socketOpens :: "nat \<Rightarrow> BinanceWebSocket \<Rightarrow> BinanceWebSocket" where
  "socketOpens n s =
     (if readyState s n = Some CONNECTING then onopen (setReadyState n OPEN s) else s)"

definition socketReceives :: "js_builtins \<Rightarrow> nat \<Rightarrow> string \<Rightarrow> BinanceWebSocket \<Rightarrow> BinanceWebSocket" where
  "socketReceives B n rawData s =
     (if readyState s n = Some OPEN then onmessage B rawData s else s)"

definition socketErrors :: "nat \<Rightarrow> BinanceWebSocket \<Rightarrow> BinanceWebSocket" where
  "socketErrors n s = (if n < length (sockets s) then onerror s else s)"

definition socketCloses :: "nat \<Rightarrow> BinanceWebSocket \<Rightarrow> BinanceWebSocket" where
  "socketCloses n s =
     (if n < length (sockets s) \<and> readyState s n \<noteq> Some CLOSED
      then onclose (setReadyState n CLOSED s) else s)"

definition timeoutFires :: "nat \<Rightarrow> BinanceWebSocket \<Rightarrow> BinanceWebSocket" where
  "timeoutFires h s =
     (if h \<in> set (map fst (timeouts s))
      then reconnectCallback (s\<lparr>timeouts := filter (\<lambda>p. fst p \<noteq> h) (timeouts s)\<rparr>)
      else s)"

definition intervalFires :: "nat \<Rightarrow> BinanceWebSocket \<Rightarrow> BinanceWebSocket" where
  "intervalFires h s = (if h \<in> set (intervals s) then pingCallback s else s)"

text \<open>Everything that can happen to a manager, and a run of such events.\<close>

datatype event =
    Connect "string list"
  | Disconnect
  | SubscribeKline string ChartInterval nat
  | UnsubscribeKline string ChartInterval
  | SubscribeTrade string nat
  | UnsubscribeTrade string
  | OnConnectionChange nat
  | RemoveConnectionHandler nat
  | SocketOpens nat
  | SocketReceives nat string
  | SocketErrors nat
  | SocketCloses nat
  | TimeoutFires nat
  | IntervalFires nat

fun step :: "js_builtins \<Rightarrow> event \<Rightarrow> BinanceWebSocket \<Rightarrow> BinanceWebSocket" where
  "step B (Connect strs) s = connect strs s"
| "step B Disconnect s = disconnect s"
| "step B (SubscribeKline symbol interval handler) s = subscribeKline symbol interval handler s"
| "step B (UnsubscribeKline symbol interval) s = unsubscribeKline symbol interval s"
| "step B (SubscribeTrade symbol handler) s = subscribeTrade symbol handler s"
| "step B (UnsubscribeTrade symbol) s = unsubscribeTrade symbol s"
| "step B (OnConnectionChange handler) s = onConnectionChange handler s"
| "step B (RemoveConnectionHandler handler) s = removeConnectionHandler handler s"
| "step B (SocketOpens n) s = socketOpens n s"
| "step B (SocketReceives n rawData) s = socketReceives B n rawData s"
| "step B (SocketErrors n) s = socketErrors n s"
| "step B (SocketCloses n) s = socketCloses n s"
| "step B (TimeoutFires h) s = timeoutFires h s"
| "step B (IntervalFires h) s = intervalFires h s"

fun run :: "js_builtins \<Rightarrow> event list \<Rightarrow> BinanceWebSocket \<Rightarrow> BinanceWebSocket" where
  "run B [] s = s"
| "run B (ev # evs) s = run B evs (step B ev s)"

section \<open>Notions the properties are stated with\<close>

text \<open>
  Two characters differ at most in letter case when they are equal or one is an ASCII
  capital and the other the letter 32 codes above it.
\<close>

definition caseVariant :: "char \<Rightarrow> char \<Rightarrow> bool" where
  "caseVariant c d =
     (c = d \<or> (isUpperAscii c \<and> (of_char d :: nat) = of_char c + 32)
            \<or> (isUpperAscii d \<and> (of_char c :: nat) = of_char d + 32))"

text \<open>A call of \<^verbatim>\<open>connect\<close>, with any list of streams.\<close>

fun isConnect :: "event \<Rightarrow> bool" where
  "isConnect (Connect strs) = True"
| "isConnect ev = False"

text \<open>A call of \<^verbatim>\<open>connect\<close> with at least one stream.\<close>

fun isConnectSome :: "event \<Rightarrow> bool" where
  "isConnectSome (Connect strs) = (strs \<noteq> [])"
| "isConnectSome ev = False"

text \<open>Nothing is left that could act by itself: no timeout is pending and every socket is closed.\<close>

definition quiescent :: "BinanceWebSocket \<Rightarrow> bool" where
  "quiescent s = (timeouts s = [] \<and> list_all (\<lambda>p. snd p = CLOSED) (sockets s))"

text \<open>
  A connection that never opens: \<^verbatim>\<open>connect\<close>, then five times the socket closes and the
  reconnection timer fires. Sockets are numbered from 0 and timers from 1.
\<close>

definition uncleanCloses :: "event list" where
  "uncleanCloses =
     [Connect [''btcusdt@trade''],
      SocketCloses 0, TimeoutFires 1,
      SocketCloses 1, TimeoutFires 2,
      SocketCloses 2, TimeoutFires 3,
      SocketCloses 3, TimeoutFires 4,
      SocketCloses 4, TimeoutFires 5]"

text \<open>
  Two overlapping connections that never open: \<^verbatim>\<open>connect\<close> is called twice while the
  first socket is still connecting (it is closed only when open), both sockets close, and
  from then on two chains of reconnections run side by side. At the end the counter is at
  the maximum and the last close has logged so, while the timer scheduled by the close
  before is still pending.
\<close>

definition overlappingCloses :: "event list" where
  "overlappingCloses =
     [Connect [''btcusdt@trade''], Connect [''btcusdt@trade''],
      SocketCloses 0, SocketCloses 1, TimeoutFires 1, TimeoutFires 2,
      SocketCloses 2, SocketCloses 3, TimeoutFires 3, TimeoutFires 4,
      SocketCloses 4, SocketCloses 5]"

text \<open>
  Sample frames, and a sample of the built-ins that is right on them: the text of the
  combined-stream trade frame, of a frame with another discriminator, of \<^verbatim>\<open>null\<close> and of
  a kline frame parse to the values below, every other text is taken not to parse, and
  \<^verbatim>\<open>parseFloat\<close> knows the decimals of the kline frame. \<open>sampleKline\<close> is the kline frame
  as a value of its declared type.
\<close>

definition tradeTick :: jsval where
  "tradeTick =
     JObj [(''e'', JStr ''trade''), (''s'', JStr ''BTCUSDT''), (''p'', JStr ''50000.1''),
           (''q'', JStr ''0.01''), (''T'', JNum 1700000000000), (''m'', JBool False)]"

definition tradeEnvelope :: jsval where
  "tradeEnvelope = JObj [(''stream'', JStr ''btcusdt@trade''), (''data'', tradeTick)]"

definition klineFrame :: jsval where
  "klineFrame =
     JObj [(''e'', JStr ''kline''), (''s'', JStr ''BTCUSDT''),
           (''k'', JObj [(''t'', JNum 1700000000000), (''i'', JStr ''1m''),
                         (''o'', JStr ''50000.1''), (''c'', JStr ''50010.5''),
                         (''h'', JStr ''50020''), (''l'', JStr ''49990.25''),
                         (''v'', JStr ''12.5'')])]"

definition sampleKline :: BinanceKlineWS where
  "sampleKline =
     \<lparr> kline_e = ''kline'', kline_s = ''BTCUSDT'',
       kline_k = \<lparr> k_t = Num 1700000000000, k_i = ''1m'', k_o = ''50000.1'', k_c = ''50010.5'',
                   k_h = ''50020'', k_l = ''49990.25'', k_v = ''12.5'' \<rparr> \<rparr>"

definition sampleBuiltins :: js_builtins where
  \<open>sampleBuiltins =
     \<lparr> JSON_parse = (\<lambda>rawData.
         if rawData = ''{"stream":"btcusdt@trade","data":{"e":"trade","s":"BTCUSDT","p":"50000.1","q":"0.01","T":1700000000000,"m":false}}''
         then Some tradeEnvelope
         else if rawData = ''{"e":"ping"}'' then Some (JObj [(''e'', JStr ''ping'')])
         else if rawData = ''null'' then Some JNull
         else if rawData = ''{"e":"kline","s":"BTCUSDT","k":{"t":1700000000000,"i":"1m","o":"50000.1","c":"50010.5","h":"50020","l":"49990.25","v":"12.5"}}''
         then Some klineFrame
         else None),
       ToString = (\<lambda>v. ''undefined''),
       ToNumber = (\<lambda>v. NaN),
       parseFloat = (\<lambda>str.
         if str = ''50000.1'' then Num 50000.1
         else if str = ''50010.5'' then Num 50010.5
         else if str = ''50020'' then Num 50020
         else if str = ''49990.25'' then Num 49990.25
         else if str = ''12.5'' then Num 12.5
         else NaN) \<rparr>\<close>

text \<open>
  A frame is malformed when its text does not parse, when reading the payload throws (the
  parsed value is \<^verbatim>\<open>null\<close>), or when the \<^verbatim>\<open>e\<close> of the payload is neither \<^verbatim>\<open>"kline"\<close> nor
  \<^verbatim>\<open>"trade"\<close>.
\<close>

definition malformed :: "js_builtins \<Rightarrow> string \<Rightarrow> bool" where
  "malformed B rawData =
     (case JSON_parse B rawData of
        None \<Rightarrow> True
      | Some parsed \<Rightarrow>
          (case payload parsed of
             Inl err \<Rightarrow> True
           | Inr data \<Rightarrow>
               get_prop data ''e'' \<noteq> Inr (JStr ''kline'') \<and>
               get_prop data ''e'' \<noteq> Inr (JStr ''trade'')))"

section \<open>Properties\<close>

subsection \<open>Evaluation and frame lemmas\<close>

lemmas manager_defs =
  newBinanceWebSocket_def connect_def createConnection_def createStreamUrl_def WS_BASE_URL_def
  notifyConnectionState_def new_WebSocket_def socket_close_def setReadyState_def readyState_def
  socketCloses_def socketOpens_def socketErrors_def timeoutFires_def intervalFires_def
  onclose_def onopen_def onerror_def attemptReconnect_def reconnectCallback_def stopPing_def
  startPing_def pingCallback_def emit_def disconnect_def getState_def
  maxReconnectAttempts_def reconnectDelay_def
  subscribeKline_def unsubscribeKline_def subscribeTrade_def unsubscribeTrade_def
  onConnectionChange_def removeConnectionHandler_def Let_def

lemma handleMessage_trace_only:
  "handleMessage B rawData s = s\<lparr>trace := trace (handleMessage B rawData s)\<rparr>"
  by (simp add: handleMessage_def handleMessage_try_def bind_err_def emit_def
      split: sum.splits option.splits)

lemma handleMessage_sockets [simp]: "sockets (handleMessage B rawData s) = sockets s"
  and handleMessage_timeouts [simp]: "timeouts (handleMessage B rawData s) = timeouts s"
  and handleMessage_ws [simp]: "ws (handleMessage B rawData s) = ws s"
  and handleMessage_streams [simp]: "streams (handleMessage B rawData s) = streams s"
  by (subst handleMessage_trace_only, simp)+

subsection \<open>Stream names\<close>

lemma toLowerChar_code:
  "isUpperAscii c \<Longrightarrow> (of_char (toLowerChar c) :: nat) = of_char c + 32"
  by (cases c) (auto simp: isUpperAscii_def of_bool_def split: if_splits)

lemma toLowerChar_idem: "toLowerChar (toLowerChar c) = toLowerChar c"
  by (cases c) (auto simp: isUpperAscii_def of_bool_def split: if_splits)

lemma toLowerChar_caseVariant: "caseVariant c d \<Longrightarrow> toLowerChar c = toLowerChar d"
  unfolding caseVariant_def
  by (metis toLowerChar_code toLowerChar_idem of_char_eq_iff)

lemma toLowerCase_caseVariant:
  "list_all2 caseVariant S1 S2 \<Longrightarrow> toLowerCase S1 = toLowerCase S2"
  unfolding toLowerCase_def
  by (induction S1 S2 rule: list_all2_induct) (simp_all add: toLowerChar_caseVariant)

text \<open>
  C9. The kline stream name does not depend on the letter case of the symbol: the names
  of \<^verbatim>\<open>"btcusdt"\<close> and \<^verbatim>\<open>"BTCUSDT"\<close> are the same for every interval, and so are the names of
  any two symbols that differ, position by position, at most in letter case. (Being a
  function of symbol and interval, the name is deterministic.)
\<close>

theorem getKlineStreamName_case_insensitive:
  "getKlineStreamName ''btcusdt'' I = getKlineStreamName ''BTCUSDT'' I \<and>
   (list_all2 caseVariant S1 S2 \<longrightarrow> getKlineStreamName S1 I = getKlineStreamName S2 I)"
proof -
  have "toLowerCase ''btcusdt'' = toLowerCase ''BTCUSDT''"
    by (simp add: toLowerCase_def isUpperAscii_def)
  then show ?thesis
    by (simp add: getKlineStreamName_def toLowerCase_caseVariant)
qed

theorem getKlineStreamName_case_insensitive_witness:
  "list_all2 caseVariant ''EthUsdt'' ''eTHusdT'' \<and>
   getKlineStreamName ''EthUsdt'' ''1M'' = ''ethusdt@kline_1M'' \<and>
   getKlineStreamName ''eTHusdT'' ''1M'' = ''ethusdt@kline_1M''"
  using getKlineStreamName_case_insensitive [of "''1M''" "''EthUsdt''" "''eTHusdT''"]
  by (simp add: caseVariant_def isUpperAscii_def getKlineStreamName_def toLowerCase_def)

subsection \<open>Candlesticks\<close>

text \<open>
  C7. The candlestick of a kline frame has as \<open>time\<close> the floor of \<^verbatim>\<open>k.t\<close> divided by 1000;
  for a \<^verbatim>\<open>k.t\<close> that is a whole number \<open>n\<close> of milliseconds this is \<open>n div 1000\<close>, the whole
  seconds below (1700000000000 gives 1700000000). Its open, high, low, close and volume
  are \<^verbatim>\<open>Number.parseFloat\<close> of the strings \<^verbatim>\<open>k.o\<close>, \<^verbatim>\<open>k.h\<close>, \<^verbatim>\<open>k.l\<close>, \<^verbatim>\<open>k.c\<close> and \<^verbatim>\<open>k.v\<close>.
\<close>

theorem parseKlineData_time_seconds:
  "(k_t (kline_k data) = Num x \<longrightarrow>
      cd_time (parseKlineData B data) = Num (of_int \<lfloor>x / 1000\<rfloor>)) \<and>
   (k_t (kline_k data) = Num (of_int n) \<longrightarrow>
      cd_time (parseKlineData B data) = Num (of_int (n div 1000))) \<and>
   cd_open (parseKlineData B data) = parseFloat B (k_o (kline_k data)) \<and>
   cd_high (parseKlineData B data) = parseFloat B (k_h (kline_k data)) \<and>
   cd_low (parseKlineData B data) = parseFloat B (k_l (kline_k data)) \<and>
   cd_close (parseKlineData B data) = parseFloat B (k_c (kline_k data)) \<and>
   cd_volume (parseKlineData B data) = parseFloat B (k_v (kline_k data))"
proof -
  have "\<lfloor>real_of_int n / 1000\<rfloor> = n div 1000"
    using floor_divide_of_int_eq [of n 1000] by simp
  then show ?thesis
    by (simp add: parseKlineData_def div1000_def Math_floor_def)
qed

theorem parseKlineData_time_seconds_witness:
  "k_t (kline_k sampleKline) = Num 1700000000000 \<and>
   cd_time (parseKlineData sampleBuiltins sampleKline) = Num 1700000000 \<and>
   cd_open (parseKlineData sampleBuiltins sampleKline) = Num 50000.1 \<and>
   cd_high (parseKlineData sampleBuiltins sampleKline) = Num 50020 \<and>
   cd_low (parseKlineData sampleBuiltins sampleKline) = Num 49990.25 \<and>
   cd_close (parseKlineData sampleBuiltins sampleKline) = Num 50010.5 \<and>
   cd_volume (parseKlineData sampleBuiltins sampleKline) = Num 12.5"
  using parseKlineData_time_seconds [of sampleKline 1700000000000 sampleBuiltins 1700000000000]
  by (simp add: sampleBuiltins_def sampleKline_def)

subsection \<open>Reconnection\<close>

lemma quiescent_getState: "quiescent s \<Longrightarrow> getState s = Disconnected"
  by (auto simp: getState_def quiescent_def readyState_def list_all_length
      split: option.splits ReadyState.splits)

lemma quiescent_step:
  assumes "quiescent s" and "\<not> isConnect ev"
  shows "quiescent (step B ev s) \<and> sockets (step B ev s) = sockets s"
proof (cases ev)
  case (Connect strs)
  then show ?thesis using assms by simp
next
  case Disconnect
  then show ?thesis using assms
    by (auto simp: disconnect_def stopPing_def socket_close_def quiescent_def Let_def
        readyState_def list_all_length split: option.splits)
next
  case (SocketOpens n)
  then show ?thesis using assms
    by (auto simp: socketOpens_def quiescent_def readyState_def list_all_length)
next
  case (SocketReceives n rawData)
  then show ?thesis using assms
    by (auto simp: socketReceives_def onmessage_def quiescent_def)
next
  case (SocketErrors n)
  then show ?thesis using assms
    by (auto simp: socketErrors_def onerror_def notifyConnectionState_def quiescent_def)
next
  case (SocketCloses n)
  then show ?thesis using assms
    by (auto simp: socketCloses_def quiescent_def readyState_def list_all_length)
next
  case (TimeoutFires h)
  then show ?thesis using assms
    by (auto simp: timeoutFires_def quiescent_def)
next
  case (IntervalFires h)
  then show ?thesis using assms
    by (auto simp: intervalFires_def pingCallback_def emit_def quiescent_def
        split: option.splits)
qed (use assms in \<open>auto simp: quiescent_def subscribeKline_def unsubscribeKline_def
      subscribeTrade_def unsubscribeTrade_def onConnectionChange_def
      removeConnectionHandler_def\<close>)

lemma quiescent_run:
  "quiescent s \<Longrightarrow> list_all (\<lambda>ev. \<not> isConnect ev) evs \<Longrightarrow>
   quiescent (run B evs s) \<and> sockets (run B evs s) = sockets s"
proof (induction evs arbitrary: s)
  case Nil
  then show ?case by simp
next
  case (Cons ev evs)
  then show ?case using quiescent_step [of s ev B] by simp
qed

lemma onclose_below_cap:
  "reconnectAttempts s < maxReconnectAttempts \<Longrightarrow>
     reconnectAttempts (onclose s) = reconnectAttempts s + 1 \<and>
     timeouts (onclose s) =
       timeouts s @ [(nextTimerId s, reconnectDelay * 2 ^ (reconnectAttempts (onclose s) - 1))]"
  by (simp add: onclose_def attemptReconnect_def stopPing_def notifyConnectionState_def Let_def
      split: option.splits)

lemma onclose_at_cap:
  "maxReconnectAttempts \<le> reconnectAttempts s \<Longrightarrow>
     reconnectAttempts (onclose s) = reconnectAttempts s \<and>
     timeouts (onclose s) = timeouts s \<and> sockets (onclose s) = sockets s \<and>
     ws (onclose s) = ws s"
  by (simp add: onclose_def attemptReconnect_def stopPing_def notifyConnectionState_def emit_def
      split: option.splits)

lemma socketCloses_at_cap_quiescent:
  assumes "maxReconnectAttempts \<le> reconnectAttempts s"
    and "quiescent (setReadyState n CLOSED s)"
  shows "quiescent (socketCloses n s)"
proof (cases "n < length (sockets s) \<and> readyState s n \<noteq> Some CLOSED")
  case True
  have "maxReconnectAttempts \<le> reconnectAttempts (setReadyState n CLOSED s)"
    using assms(1) by (simp add: setReadyState_def)
  from onclose_at_cap [OF this] assms(2) True show ?thesis
    by (simp add: socketCloses_def quiescent_def)
next
  case False
  then have "setReadyState n CLOSED s = s"
    by (auto simp: setReadyState_def readyState_def list_update_same_conv prod_eq_iff)
  with False assms(2) show ?thesis by (auto simp: socketCloses_def)
qed

lemma connect_getState:
  "getState (connect strs s) = Connecting \<and>
   length (sockets (connect strs s)) = length (sockets s) + 1"
  by (simp add: connect_def createConnection_def Let_def new_WebSocket_def
      notifyConnectionState_def socket_close_def setReadyState_def readyState_def getState_def
      split: option.splits)

lemma uncleanCloses_delays:
  "map (\<lambda>k. timeouts (run B (take (2 * k) uncleanCloses) newBinanceWebSocket)) [1, 2, 3, 4, 5] =
     [[(1, 1000)], [(2, 2000)], [(3, 4000)], [(4, 8000)], [(5, 16000)]]"
  by (simp add: uncleanCloses_def manager_defs)

lemma uncleanCloses_end:
  "reconnectAttempts (run B uncleanCloses newBinanceWebSocket) = 5 \<and>
   timeouts (run B uncleanCloses newBinanceWebSocket) = [] \<and>
   map snd (sockets (run B uncleanCloses newBinanceWebSocket)) =
     [CLOSED, CLOSED, CLOSED, CLOSED, CLOSED, CONNECTING] \<and>
   ws (run B uncleanCloses newBinanceWebSocket) = Some 5"
  by (simp add: uncleanCloses_def manager_defs)

lemma uncleanCloses_sixth_close:
  "timeouts (run B (uncleanCloses @ [SocketCloses 5]) newBinanceWebSocket) = [] \<and>
   trace (run B (uncleanCloses @ [SocketCloses 5]) newBinanceWebSocket) =
     [ConsoleError ''Max reconnection attempts reached'']"
  by (simp add: uncleanCloses_def manager_defs)

lemma uncleanCloses_state:
  "run B uncleanCloses newBinanceWebSocket =
    newBinanceWebSocket\<lparr> ws := Some 5, reconnectAttempts := 5, streams := [''btcusdt@trade''],
      sockets := [(''wss://testnet.binance.vision/ws/btcusdt@trade'', CLOSED),
                  (''wss://testnet.binance.vision/ws/btcusdt@trade'', CLOSED),
                  (''wss://testnet.binance.vision/ws/btcusdt@trade'', CLOSED),
                  (''wss://testnet.binance.vision/ws/btcusdt@trade'', CLOSED),
                  (''wss://testnet.binance.vision/ws/btcusdt@trade'', CLOSED),
                  (''wss://testnet.binance.vision/ws/btcusdt@trade'', CONNECTING)],
      nextTimerId := 6 \<rparr>"
  by (simp add: uncleanCloses_def manager_defs)

text \<open>
  C1, as the code has it. Whenever a socket closes, \<open>onclose\<close> runs, and as long as the
  attempt counter is below the maximum of 5 it adds one to the counter and schedules one
  reconnection timer whose delay is 1000 ms times 2 to the power (attempt - 1), the
  attempt being the counter after the increment. Once the counter has reached 5, a close
  schedules nothing and opens nothing. If at that close no earlier reconnection timer is
  pending and no other socket is alive, then no run of events without a call of
  \<^verbatim>\<open>connect\<close> creates a socket or a timer, and the state stays \<^verbatim>\<open>disconnected\<close>. A call of
  \<^verbatim>\<open>connect\<close> opens a new socket whatever the counter is.
\<close>

theorem reconnect_backoff_capped:
  "(reconnectAttempts s < maxReconnectAttempts \<longrightarrow>
      reconnectAttempts (onclose s) = reconnectAttempts s + 1 \<and>
      timeouts (onclose s) =
        timeouts s @ [(nextTimerId s, reconnectDelay * 2 ^ (reconnectAttempts (onclose s) - 1))]) \<and>
   (maxReconnectAttempts \<le> reconnectAttempts s \<longrightarrow>
      reconnectAttempts (onclose s) = reconnectAttempts s \<and>
      timeouts (onclose s) = timeouts s \<and> sockets (onclose s) = sockets s) \<and>
   (maxReconnectAttempts \<le> reconnectAttempts s \<and> quiescent (setReadyState n CLOSED s) \<and>
    list_all (\<lambda>ev. \<not> isConnect ev) evs \<longrightarrow>
      sockets (run B evs (socketCloses n s)) = sockets (socketCloses n s) \<and>
      timeouts (run B evs (socketCloses n s)) = [] \<and>
      getState (run B evs (socketCloses n s)) = Disconnected) \<and>
   getState (connect strs s) = Connecting \<and>
   length (sockets (connect strs s)) = length (sockets s) + 1 \<and>
   maxReconnectAttempts = 5 \<and> reconnectDelay = 1000"
proof -
  have "sockets (run B evs (socketCloses n s)) = sockets (socketCloses n s) \<and>
      timeouts (run B evs (socketCloses n s)) = [] \<and>
      getState (run B evs (socketCloses n s)) = Disconnected"
    if "maxReconnectAttempts \<le> reconnectAttempts s" "quiescent (setReadyState n CLOSED s)"
       "list_all (\<lambda>ev. \<not> isConnect ev) evs"
  proof -
    have "quiescent (socketCloses n s)"
      using that(1,2) by (rule socketCloses_at_cap_quiescent)
    from quiescent_run [OF this that(3), of B]
    have q: "quiescent (run B evs (socketCloses n s))"
      and "sockets (run B evs (socketCloses n s)) = sockets (socketCloses n s)"
      by simp_all
    moreover from q have "timeouts (run B evs (socketCloses n s)) = []"
      by (simp add: quiescent_def)
    moreover from q have "getState (run B evs (socketCloses n s)) = Disconnected"
      by (rule quiescent_getState)
    ultimately show ?thesis by simp
  qed
  then show ?thesis
    using onclose_below_cap [of s] onclose_at_cap [of s] connect_getState [of strs s]
    by (simp add: maxReconnectAttempts_def reconnectDelay_def)
qed

theorem reconnect_backoff_capped_witness:
  "reconnectAttempts (connect [''btcusdt@trade''] newBinanceWebSocket) < maxReconnectAttempts \<and>
   timeouts (onclose (connect [''btcusdt@trade''] newBinanceWebSocket)) = [(1, 1000)] \<and>
   maxReconnectAttempts \<le> reconnectAttempts (run sampleBuiltins uncleanCloses newBinanceWebSocket) \<and>
   quiescent (setReadyState 5 CLOSED (run sampleBuiltins uncleanCloses newBinanceWebSocket)) \<and>
   list_all (\<lambda>ev. \<not> isConnect ev) [TimeoutFires 5, SocketOpens 5, SocketErrors 5, Disconnect] \<and>
   timeouts (onclose (run sampleBuiltins uncleanCloses newBinanceWebSocket)) = [] \<and>
   length (sockets (run sampleBuiltins [TimeoutFires 5, SocketOpens 5, SocketErrors 5, Disconnect]
     (socketCloses 5 (run sampleBuiltins uncleanCloses newBinanceWebSocket)))) = 6 \<and>
   getState (run sampleBuiltins [TimeoutFires 5, SocketOpens 5, SocketErrors 5, Disconnect]
     (socketCloses 5 (run sampleBuiltins uncleanCloses newBinanceWebSocket))) = Disconnected"
proof -
  let ?s0 = "connect [''btcusdt@trade''] newBinanceWebSocket"
  let ?s5 = "run sampleBuiltins uncleanCloses newBinanceWebSocket"
  let ?evs = "[TimeoutFires 5, SocketOpens 5, SocketErrors 5, Disconnect]"
  have a1: "reconnectAttempts ?s0 < maxReconnectAttempts"
    by (simp add: manager_defs)
  have a2: "reconnectAttempts ?s0 = 0" "nextTimerId ?s0 = 1" "timeouts ?s0 = []"
    by (simp_all add: manager_defs)
  have b1: "maxReconnectAttempts \<le> reconnectAttempts ?s5"
    unfolding uncleanCloses_state by (simp add: maxReconnectAttempts_def)
  have b2: "quiescent (setReadyState 5 CLOSED ?s5)"
    unfolding uncleanCloses_state
    by (simp add: quiescent_def setReadyState_def newBinanceWebSocket_def)
  have b3: "list_all (\<lambda>ev. \<not> isConnect ev) ?evs"
    by simp
  have b4: "timeouts ?s5 = []"
    unfolding uncleanCloses_state by (simp add: newBinanceWebSocket_def)
  have b5: "length (sockets (socketCloses 5 ?s5)) = 6"
    unfolding uncleanCloses_state by (simp add: manager_defs)
  note A = reconnect_backoff_capped [of ?s0]
  note B = reconnect_backoff_capped [of ?s5 5 ?evs sampleBuiltins]
  from A a1 have "reconnectAttempts (onclose ?s0) = reconnectAttempts ?s0 + 1 \<and>
      timeouts (onclose ?s0) =
        timeouts ?s0 @ [(nextTimerId ?s0, reconnectDelay * 2 ^ (reconnectAttempts (onclose ?s0) - 1))]"
    by blast
  with a2 have a3: "timeouts (onclose ?s0) = [(1, 1000)]"
    by (simp add: reconnectDelay_def)
  from B b1 have "timeouts (onclose ?s5) = timeouts ?s5"
    by blast
  with b4 have b6: "timeouts (onclose ?s5) = []"
    by simp
  from B b1 b2 b3 have "sockets (run sampleBuiltins ?evs (socketCloses 5 ?s5)) = sockets (socketCloses 5 ?s5) \<and>
      getState (run sampleBuiltins ?evs (socketCloses 5 ?s5)) = Disconnected"
    by blast
  with b5 have b7: "length (sockets (run sampleBuiltins ?evs (socketCloses 5 ?s5))) = 6"
    and b8: "getState (run sampleBuiltins ?evs (socketCloses 5 ?s5)) = Disconnected"
    by simp_all
  from a1 a3 b1 b2 b3 b6 b7 b8 show ?thesis
    by blast
qed

text \<open>
  C1, as it is stated, fails where reconnections overlap. \<^verbatim>\<open>connect\<close> is called twice
  before the first socket opens; \<^verbatim>\<open>createConnection\<close> closes the old socket only when it
  is open, so both sockets live, and each close schedules a reconnection. After the run
  \<open>overlappingCloses\<close> the counter is 5, the last close has logged that the maximum is
  reached and the reported state is \<^verbatim>\<open>disconnected\<close>, but the timer of 16000 ms scheduled
  by the close before is still pending: it fires and opens a seventh socket, which opens,
  and the state is \<^verbatim>\<open>connected\<close> with no call of \<^verbatim>\<open>connect\<close> in between.
\<close>

theorem capped_reconnect_resumes_from_earlier_timer:
  "reconnectAttempts (run sampleBuiltins overlappingCloses newBinanceWebSocket) = 5 \<and>
   trace (run sampleBuiltins overlappingCloses newBinanceWebSocket) =
     [ConsoleError ''Max reconnection attempts reached''] \<and>
   timeouts (run sampleBuiltins overlappingCloses newBinanceWebSocket) = [(5, 16000)] \<and>
   getState (run sampleBuiltins overlappingCloses newBinanceWebSocket) = Disconnected \<and>
   list_all (\<lambda>ev. \<not> isConnect ev) [TimeoutFires 5, SocketOpens 6] \<and>
   length (sockets (run sampleBuiltins (overlappingCloses @ [TimeoutFires 5, SocketOpens 6])
     newBinanceWebSocket)) = 7 \<and>
   getState (run sampleBuiltins (overlappingCloses @ [TimeoutFires 5, SocketOpens 6])
     newBinanceWebSocket) = Connected"
  by (simp add: overlappingCloses_def manager_defs)

subsection \<open>The reported state\<close>

text \<open>
  C10. In every state \<^verbatim>\<open>getState\<close> returns \<^verbatim>\<open>connecting\<close>, \<^verbatim>\<open>connected\<close> or \<^verbatim>\<open>disconnected\<close>,
  never \<^verbatim>\<open>error\<close>, also right after the error handler has told the observers \<^verbatim>\<open>error\<close>;
  when there is no socket (a new manager, or after \<^verbatim>\<open>disconnect\<close>) it returns
  \<^verbatim>\<open>disconnected\<close>.
\<close>

theorem getState_never_error:
  "getState s \<noteq> Error \<and> getState (onerror s) \<noteq> Error \<and>
   (getState s = Connecting \<or> getState s = Connected \<or> getState s = Disconnected) \<and>
   (ws s = None \<longrightarrow> getState s = Disconnected) \<and>
   getState newBinanceWebSocket = Disconnected \<and>
   getState (disconnect s) = Disconnected"
  by (auto simp: getState_def newBinanceWebSocket_def disconnect_def Let_def stopPing_def
      split: option.splits ReadyState.splits)

theorem getState_never_error_witness:
  "ws newBinanceWebSocket = None \<and> getState newBinanceWebSocket = Disconnected \<and>
   trace (onerror (connect [''btcusdt@trade''] (onConnectionChange 7 newBinanceWebSocket))) =
     [ConnectionHandlerCall 7 Connecting, ConnectionHandlerCall 7 Error] \<and>
   getState (onerror (connect [''btcusdt@trade''] (onConnectionChange 7 newBinanceWebSocket))) =
     Connecting"
  using getState_never_error [of newBinanceWebSocket]
    getState_never_error [of "connect [''btcusdt@trade''] (onConnectionChange 7 newBinanceWebSocket)"]
  by (simp add: manager_defs)

subsection \<open>Connecting with no stream\<close>

text \<open>
  C8. A call of \<^verbatim>\<open>connect\<close> with an empty list of streams on a new manager does open a
  socket, to the combined-stream URL with nothing after \<^verbatim>\<open>streams=\<close>, and the state is
  \<^verbatim>\<open>connecting\<close>; the callback of the reconnection timer, in contrast, opens nothing when
  the list of streams is empty.
\<close>

theorem connect_no_streams_opens_socket:
  "sockets (connect [] newBinanceWebSocket) =
     [(''wss://testnet.binance.vision/ws/stream?streams='', CONNECTING)] \<and>
   getState (connect [] newBinanceWebSocket) = Connecting \<and>
   reconnectCallback (newBinanceWebSocket\<lparr>streams := []\<rparr>) = newBinanceWebSocket\<lparr>streams := []\<rparr>"
  by (simp add: manager_defs)

subsection \<open>Malformed frames\<close>

lemma payload_get_prop: "payload parsed = Inr data \<Longrightarrow> \<exists>ev. get_prop data e = Inr ev"
  by (cases parsed; cases data) (auto simp: payload_def bind_err_def split: if_splits option.splits)

lemma handleMessage_malformed:
  assumes "malformed B rawData"
  shows "handleMessage B rawData s =
     (if JSON_parse B rawData = None \<or> (\<exists>parsed err. JSON_parse B rawData = Some parsed \<and> payload parsed = Inl err) then emit (ConsoleError ''WebSocket message parse error:'') s else s)"
proof (cases "JSON_parse B rawData")
  case None
  then show ?thesis by (simp add: handleMessage_def handleMessage_try_def)
next
  case (Some parsed)
  show ?thesis
  proof (cases "payload parsed")
    case (Inl err)
    with Some show ?thesis by (simp add: handleMessage_def handleMessage_try_def bind_err_def)
  next
    case (Inr data)
    from payload_get_prop [OF this] obtain ev where ev: "get_prop data ''e'' = Inr ev" by blast
    with assms Some Inr have "ev \<noteq> JStr ''kline''" "ev \<noteq> JStr ''trade''"
      by (auto simp: malformed_def)
    with Some Inr ev show ?thesis
      by (simp add: handleMessage_def handleMessage_try_def bind_err_def)
  qed
qed

lemma handleMessage_klineHandlers [simp]:
    "klineHandlers (handleMessage B rawData s) = klineHandlers s"
  and handleMessage_tradeHandlers [simp]:
    "tradeHandlers (handleMessage B rawData s) = tradeHandlers s"
  and handleMessage_connectionHandlers [simp]:
    "connectionHandlers (handleMessage B rawData s) = connectionHandlers s"
  and handleMessage_reconnectAttempts [simp]:
    "reconnectAttempts (handleMessage B rawData s) = reconnectAttempts s"
  by (subst handleMessage_trace_only, simp)+

lemma readyState_cong: "sockets s' = sockets s \<Longrightarrow> readyState s' = readyState s"
  by (simp add: readyState_def fun_eq_iff)

lemma getState_cong: "ws s' = ws s \<Longrightarrow> sockets s' = sockets s \<Longrightarrow> getState s' = getState s"
  using readyState_cong [of s' s] by (cases "ws s") (simp_all add: getState_def)

text \<open>
  C5. Handling a malformed frame (text that does not parse, or parsed data whose payload
  has no \<^verbatim>\<open>e\<close> equal to \<^verbatim>\<open>"kline"\<close> or \<^verbatim>\<open>"trade"\<close>) returns normally and changes nothing
  but the console: the state is the one before, or the one before with one console error
  logged (always so when the text does not parse). No handler is called, and the
  registries, the socket, the attempt counter, the timers and the reported state are
  what they were.
\<close>

theorem malformed_frame_dropped:
  assumes "malformed B rawData"
  shows "(handleMessage B rawData s = s \<or>
          handleMessage B rawData s = emit (ConsoleError ''WebSocket message parse error:'') s) \<and>
         (JSON_parse B rawData = None \<longrightarrow>
            trace (handleMessage B rawData s) =
              trace s @ [ConsoleError ''WebSocket message parse error:'']) \<and>
         klineHandlers (handleMessage B rawData s) = klineHandlers s \<and>
         tradeHandlers (handleMessage B rawData s) = tradeHandlers s \<and>
         connectionHandlers (handleMessage B rawData s) = connectionHandlers s \<and>
         ws (handleMessage B rawData s) = ws s \<and>
         sockets (handleMessage B rawData s) = sockets s \<and>
         reconnectAttempts (handleMessage B rawData s) = reconnectAttempts s \<and>
         timeouts (handleMessage B rawData s) = timeouts s \<and>
         getState (handleMessage B rawData s) = getState s"
proof -
  have "handleMessage B rawData s = s \<or>
      handleMessage B rawData s = emit (ConsoleError ''WebSocket message parse error:'') s"
    by (simp add: handleMessage_malformed [OF assms])
  moreover have "trace (handleMessage B rawData s) =
      trace s @ [ConsoleError ''WebSocket message parse error:'']"
    if "JSON_parse B rawData = None"
    using that by (simp add: handleMessage_malformed [OF assms] emit_def)
  moreover have "getState (handleMessage B rawData s) = getState s"
    by (rule getState_cong) simp_all
  ultimately show ?thesis by simp
qed

theorem malformed_frame_dropped_witness:
  \<open>malformed sampleBuiltins ''not json'' \<and>
   malformed sampleBuiltins ''null'' \<and>
   malformed sampleBuiltins ''{"e":"ping"}'' \<and>
   handleMessage sampleBuiltins ''not json'' (subscribeTrade ''BTCUSDT'' 3 newBinanceWebSocket) =
     emit (ConsoleError ''WebSocket message parse error:'') (subscribeTrade ''BTCUSDT'' 3 newBinanceWebSocket) \<and>
   handleMessage sampleBuiltins ''null'' (subscribeTrade ''BTCUSDT'' 3 newBinanceWebSocket) =
     emit (ConsoleError ''WebSocket message parse error:'') (subscribeTrade ''BTCUSDT'' 3 newBinanceWebSocket) \<and>
   handleMessage sampleBuiltins ''{"e":"ping"}'' (subscribeTrade ''BTCUSDT'' 3 newBinanceWebSocket) =
     subscribeTrade ''BTCUSDT'' 3 newBinanceWebSocket\<close>
proof -
  let ?s = "subscribeTrade ''BTCUSDT'' 3 newBinanceWebSocket"
  have m1: "malformed sampleBuiltins ''not json''"
    by (simp add: malformed_def sampleBuiltins_def)
  have m2: "malformed sampleBuiltins ''null''"
    by (simp add: malformed_def sampleBuiltins_def payload_def bind_err_def)
  have m3: \<open>malformed sampleBuiltins ''{"e":"ping"}''\<close>
    by (simp add: malformed_def sampleBuiltins_def payload_def bind_err_def)
  have t1: "trace (handleMessage sampleBuiltins ''not json'' ?s) \<noteq> trace ?s"
    using malformed_frame_dropped [OF m1, of ?s] by (simp add: sampleBuiltins_def)
  have t2: "handleMessage sampleBuiltins ''null'' ?s = emit (ConsoleError ''WebSocket message parse error:'') ?s"
    by (simp add: handleMessage_def handleMessage_try_def sampleBuiltins_def payload_def bind_err_def)
  have t3: \<open>handleMessage sampleBuiltins ''{"e":"ping"}'' ?s = ?s\<close>
    by (simp add: handleMessage_def handleMessage_try_def sampleBuiltins_def payload_def bind_err_def)
  from t1 malformed_frame_dropped [OF m1, of ?s]
  have "handleMessage sampleBuiltins ''not json'' ?s = emit (ConsoleError ''WebSocket message parse error:'') ?s"
    by metis
  with m1 m2 m3 t2 t3 show ?thesis by blast
qed

subsection \<open>Dispatch\<close>

lemma payload_tradeEnvelope: "payload tradeEnvelope = Inr tradeTick"
  by (simp add: payload_def bind_err_def tradeEnvelope_def tradeTick_def)

lemma tradeStreamKeyOf_tradeTick: "tradeStreamKeyOf tradeTick = Inr ''btcusdt@trade''"
  by (simp add: tradeStreamKeyOf_def bind_err_def tradeTick_def getTradeStreamName_def
      toLowerCase_def isUpperAscii_def)

text \<open>
  C6, as the code has it. When the text of a frame parses to the combined-stream envelope
  \<^verbatim>\<open>{ stream: "btcusdt@trade", data: { e: "trade", s: "BTCUSDT", p: "50000.1", q: "0.01",
  T: 1700000000000, m: false } }\<close> and a trade handler is registered for
  \<^verbatim>\<open>"btcusdt@trade"\<close>, message handling takes the \<^verbatim>\<open>data\<close> of the envelope as the payload,
  derives the key \<^verbatim>\<open>"btcusdt@trade"\<close> from it and calls that handler exactly once, with the
  payload object as it was received: no other value is built from it and no field is
  converted, so its price is the field \<^verbatim>\<open>p\<close>, the string \<^verbatim>\<open>"50000.1"\<close>. Nothing else changes.
\<close>

theorem trade_envelope_dispatched:
  assumes "JSON_parse B rawData = Some tradeEnvelope"
    and "tradeHandlers s ''btcusdt@trade'' = Some handler"
  shows "handleMessage B rawData s = emit (TradeHandlerCall handler tradeTick) s \<and>
         trace (handleMessage B rawData s) = trace s @ [TradeHandlerCall handler tradeTick] \<and>
         payload tradeEnvelope = Inr tradeTick \<and>
         tradeStreamKeyOf tradeTick = Inr ''btcusdt@trade'' \<and>
         get_prop tradeTick ''p'' = Inr (JStr ''50000.1'')"
proof -
  have e: "get_prop tradeTick ''e'' = Inr (JStr ''trade'')"
    and p: "get_prop tradeTick ''p'' = Inr (JStr ''50000.1'')"
    by (simp_all add: tradeTick_def)
  have "handleMessage_try B rawData s = Inr (emit (TradeHandlerCall handler tradeTick) s)"
    using assms e
    by (simp add: handleMessage_try_def bind_err_def payload_tradeEnvelope
        tradeStreamKeyOf_tradeTick)
  then have "handleMessage B rawData s = emit (TradeHandlerCall handler tradeTick) s"
    by (simp add: handleMessage_def)
  then show ?thesis
    using p by (simp add: emit_def payload_tradeEnvelope tradeStreamKeyOf_tradeTick)
qed

theorem trade_envelope_dispatched_witness:
  \<open>JSON_parse sampleBuiltins
     ''{"stream":"btcusdt@trade","data":{"e":"trade","s":"BTCUSDT","p":"50000.1","q":"0.01","T":1700000000000,"m":false}}'' =
     Some tradeEnvelope \<and>
   tradeHandlers (subscribeTrade ''BTCUSDT'' 3 newBinanceWebSocket) ''btcusdt@trade'' = Some 3 \<and>
   trace (handleMessage sampleBuiltins
     ''{"stream":"btcusdt@trade","data":{"e":"trade","s":"BTCUSDT","p":"50000.1","q":"0.01","T":1700000000000,"m":false}}''
     (subscribeTrade ''BTCUSDT'' 3 newBinanceWebSocket)) = [TradeHandlerCall 3 tradeTick]\<close>
proof -
  let ?raw = \<open>''{"stream":"btcusdt@trade","data":{"e":"trade","s":"BTCUSDT","p":"50000.1","q":"0.01","T":1700000000000,"m":false}}''\<close>
  let ?s = "subscribeTrade ''BTCUSDT'' 3 newBinanceWebSocket"
  have h1: "JSON_parse sampleBuiltins ?raw = Some tradeEnvelope"
    by (simp add: sampleBuiltins_def)
  have h2: "tradeHandlers ?s ''btcusdt@trade'' = Some 3"
    by (simp add: subscribeTrade_def getTradeStreamName_def toLowerCase_def isUpperAscii_def)
  have h3: "trace ?s = []"
    by (simp add: subscribeTrade_def newBinanceWebSocket_def)
  from trade_envelope_dispatched [OF h1 h2] h3
  have "trace (handleMessage sampleBuiltins ?raw ?s) = [TradeHandlerCall 3 tradeTick]"
    by (simp add: emit_def)
  with h1 h2 show ?thesis by blast
qed

text \<open>
  C6, as it is stated, fails on what the handler receives: for the envelope of the claim
  the one call of the handler has the raw payload as its argument, whose \<^verbatim>\<open>p\<close> is the string
  \<^verbatim>\<open>"50000.1"\<close> and not the number 50000.1, and which has no field \<^verbatim>\<open>price\<close>.
\<close>

theorem trade_handler_gets_unconverted_payload:
  \<open>trace (handleMessage sampleBuiltins
     ''{"stream":"btcusdt@trade","data":{"e":"trade","s":"BTCUSDT","p":"50000.1","q":"0.01","T":1700000000000,"m":false}}''
     (subscribeTrade ''BTCUSDT'' 3 newBinanceWebSocket)) = [TradeHandlerCall 3 tradeTick] \<and>
   get_prop tradeTick ''p'' = Inr (JStr ''50000.1'') \<and>
   get_prop tradeTick ''p'' \<noteq> Inr (JNum 50000.1) \<and>
   get_prop tradeTick ''price'' = Inr JUndefined\<close>
proof -
  have "tradeHandlers (subscribeTrade ''BTCUSDT'' 3 newBinanceWebSocket) ''btcusdt@trade'' = Some 3"
    by (simp add: subscribeTrade_def getTradeStreamName_def toLowerCase_def isUpperAscii_def)
  moreover have "get_prop tradeTick ''e'' = Inr (JStr ''trade'')"
    by (simp add: tradeTick_def)
  ultimately have \<open>trace (handleMessage sampleBuiltins
     ''{"stream":"btcusdt@trade","data":{"e":"trade","s":"BTCUSDT","p":"50000.1","q":"0.01","T":1700000000000,"m":false}}''
     (subscribeTrade ''BTCUSDT'' 3 newBinanceWebSocket)) = [TradeHandlerCall 3 tradeTick]\<close>
    by (simp add: handleMessage_def handleMessage_try_def bind_err_def sampleBuiltins_def
        payload_tradeEnvelope tradeStreamKeyOf_tradeTick emit_def subscribeTrade_def
        newBinanceWebSocket_def)
  then show ?thesis
    by (simp add: tradeTick_def)
qed

lemma handleMessage_kline_no_handler:
  assumes "JSON_parse B rawData = Some parsed" and "payload parsed = Inr data"
    and "get_prop data ''e'' = Inr (JStr ''kline'')"
    and "klineStreamKeyOf B data = Inr K" and "klineHandlers s K = None"
  shows "handleMessage B rawData s = s"
  using assms by (simp add: handleMessage_def handleMessage_try_def bind_err_def)

lemma handleMessage_trade_no_handler:
  assumes "JSON_parse B rawData = Some parsed" and "payload parsed = Inr data"
    and "get_prop data ''e'' = Inr (JStr ''trade'')"
    and "tradeStreamKeyOf data = Inr K" and "tradeHandlers s K = None"
  shows "handleMessage B rawData s = s"
  using assms by (simp add: handleMessage_def handleMessage_try_def bind_err_def)

lemma klineStreamKeyOf_klineFrame: "klineStreamKeyOf B klineFrame = Inr ''btcusdt@kline_1m''"
  by (simp add: klineStreamKeyOf_def bind_err_def klineFrame_def getKlineStreamName_def
      toLowerCase_def isUpperAscii_def toString_def)

lemma kline_frame_dispatched:
  \<open>trace (handleMessage sampleBuiltins
     ''{"e":"kline","s":"BTCUSDT","k":{"t":1700000000000,"i":"1m","o":"50000.1","c":"50010.5","h":"50020","l":"49990.25","v":"12.5"}}''
     (subscribeKline ''BTCUSDT'' ''1m'' 3 newBinanceWebSocket)) =
   [KlineHandlerCall 3
      \<lparr> cd_time = Num 1700000000, cd_open = Num 50000.1, cd_high = Num 50020,
        cd_low = Num 49990.25, cd_close = Num 50010.5, cd_volume = Num 12.5 \<rparr>]\<close>
proof -
  have "asBinanceKlineWS sampleBuiltins klineFrame =
    Inr \<lparr> kline_e = ''kline'', kline_s = ''BTCUSDT'',
       kline_k = \<lparr> k_t = Num 1700000000000, k_i = ''1m'', k_o = ''50000.1'', k_c = ''50010.5'',
                   k_h = ''50020'', k_l = ''49990.25'', k_v = ''12.5'' \<rparr> \<rparr>"
    by (simp add: asBinanceKlineWS_def bind_err_def klineFrame_def toString_def toNumber_def)
  moreover have "payload klineFrame = Inr klineFrame"
    by (simp add: payload_def bind_err_def klineFrame_def)
  moreover have "get_prop klineFrame ''e'' = Inr (JStr ''kline'')"
    by (simp add: klineFrame_def)
  moreover have "klineHandlers (subscribeKline ''BTCUSDT'' ''1m'' 3 newBinanceWebSocket) ''btcusdt@kline_1m'' = Some 3"
    by (simp add: subscribeKline_def getKlineStreamName_def toLowerCase_def isUpperAscii_def)
  ultimately show ?thesis
    by (simp add: handleMessage_def handleMessage_try_def bind_err_def klineStreamKeyOf_klineFrame
      emit_def parseKlineData_def div1000_def Math_floor_def subscribeKline_def newBinanceWebSocket_def sampleBuiltins_def)
qed

text \<open>
  C4. Subscribing a handler for a symbol (and interval) and then unsubscribing the same
  leaves no entry for the stream key in the registry, for klines and for trades alike;
  and a frame that parses, whose payload is a kline (a trade) event and whose derived
  stream key is that key, is then handled without any effect: no handler is called and
  the state is what it was.
\<close>

theorem unsubscribe_stops_dispatch:
  assumes "JSON_parse B rawData = Some parsed" and "payload parsed = Inr data"
  shows "klineHandlers (unsubscribeKline symbol interval (subscribeKline symbol interval handler s))
           (getKlineStreamName symbol interval) = None \<and>
         tradeHandlers (unsubscribeTrade symbol (subscribeTrade symbol handler s))
           (getTradeStreamName symbol) = None \<and>
         (get_prop data ''e'' = Inr (JStr ''kline'') \<and>
          klineStreamKeyOf B data = Inr (getKlineStreamName symbol interval) \<longrightarrow>
            handleMessage B rawData
              (unsubscribeKline symbol interval (subscribeKline symbol interval handler s)) =
              unsubscribeKline symbol interval (subscribeKline symbol interval handler s)) \<and>
         (get_prop data ''e'' = Inr (JStr ''trade'') \<and>
          tradeStreamKeyOf data = Inr (getTradeStreamName symbol) \<longrightarrow>
            handleMessage B rawData
              (unsubscribeTrade symbol (subscribeTrade symbol handler s)) =
              unsubscribeTrade symbol (subscribeTrade symbol handler s))"
proof -
  let ?sk = "unsubscribeKline symbol interval (subscribeKline symbol interval handler s)"
  let ?st = "unsubscribeTrade symbol (subscribeTrade symbol handler s)"
  have k: "klineHandlers ?sk (getKlineStreamName symbol interval) = None"
    by (simp add: unsubscribeKline_def subscribeKline_def)
  have t: "tradeHandlers ?st (getTradeStreamName symbol) = None"
    by (simp add: unsubscribeTrade_def subscribeTrade_def)
  have "handleMessage B rawData ?sk = ?sk"
    if "get_prop data ''e'' = Inr (JStr ''kline'')"
      "klineStreamKeyOf B data = Inr (getKlineStreamName symbol interval)"
    using assms that k by (rule handleMessage_kline_no_handler)
  moreover have "handleMessage B rawData ?st = ?st"
    if "get_prop data ''e'' = Inr (JStr ''trade'')"
      "tradeStreamKeyOf data = Inr (getTradeStreamName symbol)"
    using assms that t by (rule handleMessage_trade_no_handler)
  ultimately show ?thesis using k t by blast
qed

theorem unsubscribe_stops_dispatch_witness:
  \<open>JSON_parse sampleBuiltins
     ''{"e":"kline","s":"BTCUSDT","k":{"t":1700000000000,"i":"1m","o":"50000.1","c":"50010.5","h":"50020","l":"49990.25","v":"12.5"}}'' =
     Some klineFrame \<and>
   payload klineFrame = Inr klineFrame \<and>
   get_prop klineFrame ''e'' = Inr (JStr ''kline'') \<and>
   klineStreamKeyOf sampleBuiltins klineFrame = Inr (getKlineStreamName ''BTCUSDT'' ''1m'') \<and>
   trace (handleMessage sampleBuiltins
     ''{"e":"kline","s":"BTCUSDT","k":{"t":1700000000000,"i":"1m","o":"50000.1","c":"50010.5","h":"50020","l":"49990.25","v":"12.5"}}''
     (unsubscribeKline ''BTCUSDT'' ''1m'' (subscribeKline ''BTCUSDT'' ''1m'' 3 newBinanceWebSocket))) = [] \<and>
   JSON_parse sampleBuiltins
     ''{"stream":"btcusdt@trade","data":{"e":"trade","s":"BTCUSDT","p":"50000.1","q":"0.01","T":1700000000000,"m":false}}'' =
     Some tradeEnvelope \<and>
   payload tradeEnvelope = Inr tradeTick \<and>
   get_prop tradeTick ''e'' = Inr (JStr ''trade'') \<and>
   tradeStreamKeyOf tradeTick = Inr (getTradeStreamName ''BTCUSDT'') \<and>
   trace (handleMessage sampleBuiltins
     ''{"stream":"btcusdt@trade","data":{"e":"trade","s":"BTCUSDT","p":"50000.1","q":"0.01","T":1700000000000,"m":false}}''
     (unsubscribeTrade ''BTCUSDT'' (subscribeTrade ''BTCUSDT'' 3 newBinanceWebSocket))) = []\<close>
proof -
  let ?raw = \<open>''{"e":"kline","s":"BTCUSDT","k":{"t":1700000000000,"i":"1m","o":"50000.1","c":"50010.5","h":"50020","l":"49990.25","v":"12.5"}}''\<close>
  let ?s = "unsubscribeKline ''BTCUSDT'' ''1m'' (subscribeKline ''BTCUSDT'' ''1m'' 3 newBinanceWebSocket)"
  let ?rawT = \<open>''{"stream":"btcusdt@trade","data":{"e":"trade","s":"BTCUSDT","p":"50000.1","q":"0.01","T":1700000000000,"m":false}}''\<close>
  let ?sT = "unsubscribeTrade ''BTCUSDT'' (subscribeTrade ''BTCUSDT'' 3 newBinanceWebSocket)"
  have h1: "JSON_parse sampleBuiltins ?raw = Some klineFrame"
    by (simp add: sampleBuiltins_def)
  have h2: "payload klineFrame = Inr klineFrame"
    by (simp add: payload_def bind_err_def klineFrame_def)
  have h3: "get_prop klineFrame ''e'' = Inr (JStr ''kline'')"
    by (simp add: klineFrame_def)
  have h4: "klineStreamKeyOf sampleBuiltins klineFrame = Inr (getKlineStreamName ''BTCUSDT'' ''1m'')"
    by (simp add: klineStreamKeyOf_klineFrame getKlineStreamName_def toLowerCase_def
        isUpperAscii_def)
  have h5: "trace ?s = []"
    by (simp add: unsubscribeKline_def subscribeKline_def newBinanceWebSocket_def)
  from unsubscribe_stops_dispatch [OF h1 h2, of "''BTCUSDT''" "''1m''" 3 newBinanceWebSocket] h3 h4
  have "handleMessage sampleBuiltins ?raw ?s = ?s"
    by blast
  with h5 have k: "trace (handleMessage sampleBuiltins ?raw ?s) = []"
    by simp
  have g1: "JSON_parse sampleBuiltins ?rawT = Some tradeEnvelope"
    by (simp add: sampleBuiltins_def)
  have g3: "get_prop tradeTick ''e'' = Inr (JStr ''trade'')"
    by (simp add: tradeTick_def)
  have g4: "tradeStreamKeyOf tradeTick = Inr (getTradeStreamName ''BTCUSDT'')"
    by (simp add: tradeStreamKeyOf_tradeTick getTradeStreamName_def toLowerCase_def
        isUpperAscii_def)
  have g5: "trace ?sT = []"
    by (simp add: unsubscribeTrade_def subscribeTrade_def newBinanceWebSocket_def)
  from unsubscribe_stops_dispatch [OF g1 payload_tradeEnvelope, of "''BTCUSDT''" _ 3
      newBinanceWebSocket] g3 g4
  have "handleMessage sampleBuiltins ?rawT ?sT = ?sT"
    by blast
  with g5 have t: "trace (handleMessage sampleBuiltins ?rawT ?sT) = []"
    by simp
  from h1 h2 h3 h4 k g1 payload_tradeEnvelope g3 g4 t show ?thesis by blast
qed

subsection \<open>Disconnecting\<close>

lemma createConnection_streams: "streams (createConnection s) = streams s"
  by (simp add: createConnection_def Let_def new_WebSocket_def notifyConnectionState_def
      socket_close_def setReadyState_def split: option.splits)

lemma reconnectCallback_no_streams: "streams s = [] \<Longrightarrow> reconnectCallback s = s"
  by (simp add: reconnectCallback_def)

lemma step_keeps_no_streams:
  assumes "streams s = []" and "\<not> isConnectSome ev"
  shows "streams (step B ev s) = []"
proof (cases ev)
  case (Connect strs)
  with assms show ?thesis by (simp add: connect_def createConnection_streams)
next
  case Disconnect
  then show ?thesis
    by (simp add: disconnect_def stopPing_def socket_close_def setReadyState_def Let_def
        split: option.splits)
next
  case (SocketOpens n)
  with assms show ?thesis
    by (simp add: socketOpens_def onopen_def startPing_def notifyConnectionState_def
        setReadyState_def)
next
  case (SocketReceives n rawData)
  with assms show ?thesis by (simp add: socketReceives_def onmessage_def)
next
  case (SocketErrors n)
  with assms show ?thesis by (simp add: socketErrors_def onerror_def notifyConnectionState_def)
next
  case (SocketCloses n)
  with assms show ?thesis
    by (simp add: socketCloses_def onclose_def attemptReconnect_def stopPing_def emit_def
        notifyConnectionState_def setReadyState_def Let_def split: option.splits)
next
  case (TimeoutFires h)
  with assms show ?thesis by (simp add: timeoutFires_def reconnectCallback_def)
next
  case (IntervalFires h)
  with assms show ?thesis
    by (simp add: intervalFires_def pingCallback_def emit_def split: option.splits)
qed (use assms in \<open>simp_all add: subscribeKline_def unsubscribeKline_def subscribeTrade_def
      unsubscribeTrade_def onConnectionChange_def removeConnectionHandler_def\<close>)

lemma run_keeps_no_streams:
  "streams s = [] \<Longrightarrow> list_all (\<lambda>ev. \<not> isConnectSome ev) evs \<Longrightarrow> streams (run B evs s) = []"
proof (induction evs arbitrary: s)
  case Nil
  then show ?case by simp
next
  case (Cons ev evs)
  then show ?case using step_keeps_no_streams [of s ev B] by simp
qed

lemma disconnect_streams: "streams (disconnect s) = []"
  by (simp add: disconnect_def stopPing_def socket_close_def setReadyState_def Let_def
      split: option.splits)

lemma disconnect_timeouts: "timeouts (disconnect s) = timeouts s"
  by (simp add: disconnect_def stopPing_def socket_close_def setReadyState_def Let_def
      split: option.splits)

text \<open>
  C2, as the code has it. \<^verbatim>\<open>disconnect\<close> cancels no timer: the pending reconnection timers
  stay pending. It empties the list of streams, and the callback of a reconnection timer
  opens a connection only when that list is not empty. So after \<^verbatim>\<open>disconnect\<close>, and after
  any run of further events in which \<^verbatim>\<open>connect\<close> is not called with at least one stream, a
  reconnection timer that fires makes no connection attempt and has no effect on the
  socket or on any handler.
\<close>

theorem disconnect_disarms_pending_timers:
  assumes "list_all (\<lambda>ev. \<not> isConnectSome ev) evs"
  shows "timeouts (disconnect s) = timeouts s \<and>
         streams (run B evs (disconnect s)) = [] \<and>
         reconnectCallback (run B evs (disconnect s)) = run B evs (disconnect s) \<and>
         sockets (timeoutFires h (run B evs (disconnect s))) = sockets (run B evs (disconnect s)) \<and>
         ws (timeoutFires h (run B evs (disconnect s))) = ws (run B evs (disconnect s)) \<and>
         trace (timeoutFires h (run B evs (disconnect s))) = trace (run B evs (disconnect s))"
proof -
  let ?s = "run B evs (disconnect s)"
  have st: "streams ?s = []"
    using disconnect_streams assms by (rule run_keeps_no_streams)
  then have "reconnectCallback ?s = ?s"
    by (rule reconnectCallback_no_streams)
  moreover have "timeoutFires h ?s = ?s \<or>
      timeoutFires h ?s = ?s\<lparr>timeouts := filter (\<lambda>p. fst p \<noteq> h) (timeouts ?s)\<rparr>"
    using st by (simp add: timeoutFires_def reconnectCallback_def)
  then have "sockets (timeoutFires h ?s) = sockets ?s \<and> ws (timeoutFires h ?s) = ws ?s \<and>
      trace (timeoutFires h ?s) = trace ?s"
    by auto
  ultimately show ?thesis
    using st disconnect_timeouts [of s] by simp
qed

theorem disconnect_disarms_pending_timers_witness:
  "list_all (\<lambda>ev. \<not> isConnectSome ev) [SubscribeTrade ''BTCUSDT'' 3, SocketCloses 1, Connect []] \<and>
   timeouts (disconnect (run sampleBuiltins
     [Connect [''btcusdt@trade''], SocketCloses 0, TimeoutFires 1, SocketCloses 1] newBinanceWebSocket)) =
     [(2, 2000)] \<and>
   length (sockets (timeoutFires 2 (run sampleBuiltins [SubscribeTrade ''BTCUSDT'' 3, SocketCloses 1, Connect []]
     (disconnect (run sampleBuiltins
       [Connect [''btcusdt@trade''], SocketCloses 0, TimeoutFires 1, SocketCloses 1] newBinanceWebSocket))))) = 3"
proof -
  let ?s = "run sampleBuiltins
     [Connect [''btcusdt@trade''], SocketCloses 0, TimeoutFires 1, SocketCloses 1] newBinanceWebSocket"
  let ?evs = "[SubscribeTrade ''BTCUSDT'' 3, SocketCloses 1, Connect []]"
  have h: "list_all (\<lambda>ev. \<not> isConnectSome ev) ?evs"
    by simp
  have t: "timeouts ?s = [(2, 2000)]"
    by (simp add: manager_defs)
  have n: "length (sockets (run sampleBuiltins ?evs (disconnect ?s))) = 3"
    by (simp add: manager_defs)
  from disconnect_disarms_pending_timers [OF h, of ?s sampleBuiltins 2] t n
  have "timeouts (disconnect ?s) = [(2, 2000)]"
    and "length (sockets (timeoutFires 2 (run sampleBuiltins ?evs (disconnect ?s)))) = 3"
    by simp_all
  with h show ?thesis by blast
qed

text \<open>
  C2, as it is stated, fails: a socket closes and a reconnection timer of 1000 ms is
  pending; \<^verbatim>\<open>disconnect\<close> leaves it pending; \<^verbatim>\<open>connect\<close> is called again with one stream and
  opens a second socket; the old timer then fires, finds a stream and opens a third
  socket.
\<close>

theorem stale_timer_reconnects_after_new_connect:
  "timeouts (run sampleBuiltins
     [Connect [''btcusdt@trade''], SocketCloses 0, Disconnect] newBinanceWebSocket) = [(1, 1000)] \<and>
   length (sockets (run sampleBuiltins
     [Connect [''btcusdt@trade''], SocketCloses 0, Disconnect, Connect [''btcusdt@trade'']]
     newBinanceWebSocket)) = 2 \<and>
   sockets (timeoutFires 1 (run sampleBuiltins
     [Connect [''btcusdt@trade''], SocketCloses 0, Disconnect, Connect [''btcusdt@trade'']]
     newBinanceWebSocket)) =
     [(''wss://testnet.binance.vision/ws/btcusdt@trade'', CLOSED),
      (''wss://testnet.binance.vision/ws/btcusdt@trade'', CONNECTING),
      (''wss://testnet.binance.vision/ws/btcusdt@trade'', CONNECTING)]"
  by (simp add: manager_defs)

text \<open>
  C3, as the code has it. After \<^verbatim>\<open>disconnect\<close>, from every state: the manager holds no ping
  interval and the one it held is cleared; the kline handlers, the trade handlers and the
  connection observers are empty, and so is the list of streams; the manager holds no
  socket, and the one it held is neither open nor connecting. The attempt counter is
  what it was, also after a following \<^verbatim>\<open>connect\<close>; it is the open event of a socket that
  sets it to zero.
\<close>

theorem disconnect_cleans_up:
  "pingInterval (disconnect s) = None \<and>
   (\<forall>h. pingInterval s = Some h \<longrightarrow> h \<notin> set (intervals (disconnect s))) \<and>
   klineHandlers (disconnect s) = Map.empty \<and>
   tradeHandlers (disconnect s) = Map.empty \<and>
   connectionHandlers (disconnect s) = [] \<and>
   streams (disconnect s) = [] \<and>
   ws (disconnect s) = None \<and>
   (\<forall>n. ws s = Some n \<longrightarrow>
      readyState (disconnect s) n \<noteq> Some OPEN \<and> readyState (disconnect s) n \<noteq> Some CONNECTING) \<and>
   reconnectAttempts (disconnect s) = reconnectAttempts s \<and>
   reconnectAttempts (connect strs (disconnect s)) = reconnectAttempts s \<and>
   reconnectAttempts (onopen s) = 0"
  by (auto simp: disconnect_def stopPing_def socket_close_def setReadyState_def readyState_def
      connect_def createConnection_def new_WebSocket_def notifyConnectionState_def
      onopen_def startPing_def Let_def split: option.splits)

theorem disconnect_cleans_up_witness:
  "pingInterval (run sampleBuiltins
     [SubscribeTrade ''BTCUSDT'' 3, OnConnectionChange 7, Connect [''btcusdt@trade''], SocketOpens 0]
     newBinanceWebSocket) = Some 1 \<and>
   ws (run sampleBuiltins
     [SubscribeTrade ''BTCUSDT'' 3, OnConnectionChange 7, Connect [''btcusdt@trade''], SocketOpens 0]
     newBinanceWebSocket) = Some 0 \<and>
   intervals (disconnect (run sampleBuiltins
     [SubscribeTrade ''BTCUSDT'' 3, OnConnectionChange 7, Connect [''btcusdt@trade''], SocketOpens 0]
     newBinanceWebSocket)) = [] \<and>
   sockets (disconnect (run sampleBuiltins
     [SubscribeTrade ''BTCUSDT'' 3, OnConnectionChange 7, Connect [''btcusdt@trade''], SocketOpens 0]
     newBinanceWebSocket)) = [(''wss://testnet.binance.vision/ws/btcusdt@trade'', CLOSING)] \<and>
   tradeHandlers (disconnect (run sampleBuiltins
     [SubscribeTrade ''BTCUSDT'' 3, OnConnectionChange 7, Connect [''btcusdt@trade''], SocketOpens 0]
     newBinanceWebSocket)) ''btcusdt@trade'' = None"
  using disconnect_cleans_up [of "run sampleBuiltins
     [SubscribeTrade ''BTCUSDT'' 3, OnConnectionChange 7, Connect [''btcusdt@trade''], SocketOpens 0]
     newBinanceWebSocket"]
  by (simp add: manager_defs)

text \<open>
  C3, as it is stated, fails on the counter: after two failed attempts the counter is 2,
  and it is still 2 after \<^verbatim>\<open>disconnect\<close> and after the \<^verbatim>\<open>connect\<close> that follows.
\<close>

theorem disconnect_keeps_reconnectAttempts:
  "reconnectAttempts (run sampleBuiltins
     [Connect [''btcusdt@trade''], SocketCloses 0, TimeoutFires 1, SocketCloses 1, Disconnect]
     newBinanceWebSocket) = 2 \<and>
   reconnectAttempts (run sampleBuiltins
     [Connect [''btcusdt@trade''], SocketCloses 0, TimeoutFires 1, SocketCloses 1, Disconnect,
      Connect [''btcusdt@trade'']]
     newBinanceWebSocket) = 2"
  by (simp add: manager_defs)

text \<open>
  A side remark on the ping interval. \<^verbatim>\<open>startPing\<close> overwrites \<open>pingInterval\<close> without
  clearing the interval it held. When \<^verbatim>\<open>connect\<close> replaces an open socket and the new socket
  opens before the close event of the old one arrives, the first interval is no longer
  held by the manager and outlives a later \<^verbatim>\<open>disconnect\<close>.
\<close>

lemma ping_interval_outlives_disconnect:
  "intervals (run B
     [Connect [''btcusdt@trade''], SocketOpens 0, Connect [''btcusdt@trade''], SocketOpens 1,
      SocketCloses 0, Disconnect] newBinanceWebSocket) = [1] \<and>
   pingInterval (run B
     [Connect [''btcusdt@trade''], SocketOpens 0, Connect [''btcusdt@trade''], SocketOpens 1,
      SocketCloses 0, Disconnect] newBinanceWebSocket) = None"
  by (simp add: manager_defs)

end
